theory Spec2Isabelle
  imports Complex_Main "HOL-Library.Sublist"
begin

section \<open>The establishments hook: data model\<close>

text \<open>
  The source is the React hook \<^verbatim>\<open>useEstablishments\<close> of
  \<^verbatim>\<open>src/hooks/useEstablishments.ts\<close>. It keeps a list of hotels in component state,
  talks to a remote store (the gateway), emits user notifications and writes diagnostic
  logs. Each operation of the hook is embedded as a function from the state before the call
  and the responses of the gateway to the result of the call and the state after it.

  JavaScript numbers are embedded as exact numbers: lengths as \<open>nat\<close>, stored counts as
  \<open>int\<close>, rates as \<open>rat\<close>;
  \<^verbatim>\<open>Math.round(x)\<close> is \<open>\<lfloor>x + 1/2\<rfloor>\<close>. Strings are lists of 8-bit characters and
  \<^verbatim>\<open>toLowerCase\<close> maps the letters A-Z to a-z and leaves every other character as it is.
\<close>

subsection \<open>Values and records\<close>

text \<open>A value of a plain JavaScript object sent to the gateway.\<close>

datatype jsval = JNum rat | JStr string | JList "string list" | JNull

text \<open>
  \<^verbatim>\<open>EstablishmentFormData\<close> and \<^verbatim>\<open>Partial<EstablishmentFormData>\<close>: an object, read as
  a finite map from property names to values, so that the object spread of
  \<^verbatim>\<open>createEstablishment\<close> is map override.
\<close>

type_synonym formdata = "string \<rightharpoonup> jsval"

text \<open>
  Modelled from the spec: the type \<^verbatim>\<open>Hotel\<close> is declared in \<^verbatim>\<open>lib/supabase\<close>, which is
  not among the sources. The record has the properties the hook reads. \<open>None\<close> stands for
  a property that is missing, \<^verbatim>\<open>null\<close> or \<^verbatim>\<open>undefined\<close>. The status is the string the
  hook compares with \<^verbatim>\<open>===\<close>.
\<close>

record Hotel =
  id' :: int
  nom :: string
  adresse :: string
  ville :: string
  gestionnaire :: "string option"
  statut :: string
  chambres_total :: "int option"
  chambres_occupees :: "int option"
  taux_occupation :: "rat option"

text \<open>A row of \<^verbatim>\<open>rooms\<close> as selected by \<^verbatim>\<open>select('id, statut')\<close>.\<close>

datatype Room = Room (room_id: int) (room_statut: string)

text \<open>The error object of a failed gateway call; \<^verbatim>\<open>err.message\<close> is its text.\<close>

datatype gw_error = GwError (message: string)

text \<open>The outcome of an \<^verbatim>\<open>async\<close> function: its promise resolves or rejects.\<close>

datatype 'a promise = Resolved 'a | Rejected gw_error

subsection \<open>The outside world: gateway calls, notifications, console\<close>

datatype gateway_call =
    SelectHotels
  | SelectHotelById int
  | InsertHotel formdata
  | UpdateHotel int formdata
  | SelectReservations int
  | DeleteHotel int
  | SelectRooms int

datatype severity = Success | Warning

text \<open>
  The texts passed to \<^verbatim>\<open>addNotification\<close>, in the order of the source:
  the fetch of all hotels failed, the fetch of one hotel failed, created, creation failed,
  updated, update failed, deletion refused because of active reservations, deleted,
  deletion failed.
\<close>

datatype notice =
    FetchAllFailed
  | FetchOneFailed
  | Created
  | CreateFailed
  | Updated
  | UpdateFailed
  | ActiveReservations
  | Deleted
  | DeleteFailed

text \<open>The texts passed to \<^verbatim>\<open>console.error\<close>, one for each \<^verbatim>\<open>catch\<close> block.\<close>

datatype log_text = LogFetchAll | LogFetchOne | LogCreate | LogUpdate | LogDelete | LogStats

text \<open>
  The state of the hook (\<open>establishments\<close>, \<open>loading\<close>, \<open>error\<close>) together with the trace
  of what the hook did to its collaborators, oldest first.
\<close>

record hook_state =
  establishments :: "Hotel list"
  loading :: bool
  error :: "string option"
  calls :: "gateway_call list"
  notifications :: "(severity \<times> notice) list"
  console :: "(log_text \<times> gw_error) list"

definition initial_state :: hook_state where
  "initial_state =
     \<lparr>establishments = [], loading = True, error = None,
      calls = [], notifications = [], console = []\<rparr>"

definition gateway :: "gateway_call \<Rightarrow> hook_state \<Rightarrow> hook_state" where
  "gateway c st = st\<lparr>calls := calls st @ [c]\<rparr>"

definition addNotification :: "severity \<Rightarrow> notice \<Rightarrow> hook_state \<Rightarrow> hook_state" where
  "addNotification sev n st = st\<lparr>notifications := notifications st @ [(sev, n)]\<rparr>"

definition console_error :: "log_text \<Rightarrow> gw_error \<Rightarrow> hook_state \<Rightarrow> hook_state" where
  "console_error t err st = st\<lparr>console := console st @ [(t, err)]\<rparr>"

definition setEstablishments :: "(Hotel list \<Rightarrow> Hotel list) \<Rightarrow> hook_state \<Rightarrow> hook_state" where
  "setEstablishments f st = st\<lparr>establishments := f (establishments st)\<rparr>"

definition setLoading :: "bool \<Rightarrow> hook_state \<Rightarrow> hook_state" where
  "setLoading b st = st\<lparr>loading := b\<rparr>"

definition setError :: "string option \<Rightarrow> hook_state \<Rightarrow> hook_state" where
  "setError e st = st\<lparr>error := e\<rparr>"

subsection \<open>Strings\<close>

definition lower_char :: "char \<Rightarrow> char" where
  "lower_char c =
     (let n = (of_char c :: nat) in if 65 \<le> n \<and> n \<le> 90 then char_of (n + 32) else c)"

definition toLowerCase :: "string \<Rightarrow> string" where
  "toLowerCase s = map lower_char s"


section \<open>Derived views\<close>

subsection \<open>searchEstablishments\<close>









subsection \<open>getEstablishmentStats\<close>

text \<open>\<^verbatim>\<open>x || 0\<close> on a number that may be missing.\<close>

definition or_zero :: "'a::zero option \<Rightarrow> 'a" where
  "or_zero x = (case x of None \<Rightarrow> 0 | Some v \<Rightarrow> if v = 0 then 0 else v)"

definition Math_round :: "rat \<Rightarrow> int" where
  "Math_round x = \<lfloor>x + 1 / 2\<rfloor>"

record stats =
  total :: nat
  actifs :: nat
  inactifs :: nat
  totalChambres :: int
  tauxOccupationMoyen :: rat

definition getEstablishmentStats :: "hook_state \<Rightarrow> stats \<times> hook_state" where
  "getEstablishmentStats st =
     (let total = length (establishments st);
          actifs = length (filter (\<lambda>est. statut est = ''ACTIF'') (establishments st));
          inactifs = length (filter (\<lambda>est. statut est = ''INACTIF'') (establishments st));
          totalChambres =
            foldl (\<lambda>sum est. sum + or_zero (chambres_total est)) 0 (establishments st);
          tauxOccupationMoyen =
            (if total > 0
             then foldl (\<lambda>sum est. sum + or_zero (taux_occupation est)) 0 (establishments st)
                    / of_nat total
             else 0)
      in (\<lparr>total = total, actifs = actifs, inactifs = inactifs,
           totalChambres = totalChambres,
           tauxOccupationMoyen = of_int (Math_round (tauxOccupationMoyen * 100)) / 100\<rparr>,
          st))"

text \<open>
  Rounding to two decimals as the specification names it: the multiple of 1/100 nearest
  to \<open>x\<close>, the upper one when two are equally near.
\<close>

definition round2 :: "rat \<Rightarrow> rat" where
  "round2 x = of_int \<lfloor>x * 100 + 1 / 2\<rfloor> / 100"



section \<open>Sync controller\<close>

text \<open>
  The gateway answers \<^verbatim>\<open>{ data, error }\<close>: \<open>Inl err\<close> when \<open>error\<close> is set, \<open>Inr data\<close>
  otherwise. The body of each \<^verbatim>\<open>try\<close> block is a function of its own whose result is
  \<open>Inl err\<close> when the block throws \<open>err\<close>; the operation itself adds the \<^verbatim>\<open>catch\<close> block.
\<close>

definition fetchEstablishments_try ::
  "gw_error + Hotel list option \<Rightarrow> hook_state \<Rightarrow> (gw_error + unit) \<times> hook_state" where
  "fetchEstablishments_try resp st =
     (let st = setLoading True st;
          st = setError None st;
          st = gateway SelectHotels st
      in case resp of
           Inl err \<Rightarrow> (Inl err, st)
         | Inr data \<Rightarrow>
             (Inr (), setEstablishments (\<lambda>_. case data of None \<Rightarrow> [] | Some hs \<Rightarrow> hs) st))"

definition fetchEstablishments ::
  "gw_error + Hotel list option \<Rightarrow> hook_state \<Rightarrow> unit promise \<times> hook_state" where
  "fetchEstablishments resp st =
     (case fetchEstablishments_try resp st of
        (Inl err, st) \<Rightarrow>
          (let st = console_error LogFetchAll err st;
               st = setError (Some (message err)) st;
               st = addNotification Warning FetchAllFailed st
           in (Resolved (), setLoading False st))
      | (Inr u, st) \<Rightarrow> (Resolved (), setLoading False st))"

definition fetchEstablishmentById ::
  "int \<Rightarrow> gw_error + Hotel option \<Rightarrow> hook_state \<Rightarrow> Hotel option promise \<times> hook_state" where
  "fetchEstablishmentById i resp st =
     (let st = gateway (SelectHotelById i) st
      in case resp of
           Inl err \<Rightarrow>
             (Resolved None,
              addNotification Warning FetchOneFailed (console_error LogFetchOne err st))
         | Inr data \<Rightarrow> (Resolved data, st))"

section \<open>Mutation operations\<close>

subsection \<open>createEstablishment\<close>

text \<open>
  The row handed to \<^verbatim>\<open>insert\<close>: the properties of the form data, then the three
  occupancy properties, which win over properties of the same name in the form data.
\<close>

definition insert_row :: "formdata \<Rightarrow> formdata" where
  "insert_row formData =
     formData ++ [''chambres_total'' \<mapsto> JNum 0,
                  ''chambres_occupees'' \<mapsto> JNum 0,
                  ''taux_occupation'' \<mapsto> JNum 0]"

definition createEstablishment_try ::
  "formdata \<Rightarrow> gw_error + Hotel \<Rightarrow> hook_state \<Rightarrow> (gw_error + Hotel) \<times> hook_state" where
  "createEstablishment_try formData resp st =
     (let st = gateway (InsertHotel (insert_row formData)) st
      in case resp of
           Inl err \<Rightarrow> (Inl err, st)
         | Inr data \<Rightarrow>
             (let st = setEstablishments (\<lambda>prev. prev @ [data]) st;
                  st = addNotification Success Created st
              in (Inr data, st)))"

definition createEstablishment ::
  "formdata \<Rightarrow> gw_error + Hotel \<Rightarrow> hook_state \<Rightarrow> Hotel option promise \<times> hook_state" where
  "createEstablishment formData resp st =
     (case createEstablishment_try formData resp st of
        (Inl err, st) \<Rightarrow>
          (Resolved None,
           addNotification Warning CreateFailed (console_error LogCreate err st))
      | (Inr data, st) \<Rightarrow> (Resolved (Some data), st))"

subsection \<open>updateEstablishment\<close>

definition updateEstablishment_try ::
  "int \<Rightarrow> formdata \<Rightarrow> gw_error + Hotel \<Rightarrow> hook_state \<Rightarrow> (gw_error + Hotel) \<times> hook_state" where
  "updateEstablishment_try i formData resp st =
     (let st = gateway (UpdateHotel i formData) st
      in case resp of
           Inl err \<Rightarrow> (Inl err, st)
         | Inr data \<Rightarrow>
             (let st = setEstablishments (map (\<lambda>est. if id' est = i then data else est)) st;
                  st = addNotification Success Updated st
              in (Inr data, st)))"

definition updateEstablishment ::
  "int \<Rightarrow> formdata \<Rightarrow> gw_error + Hotel \<Rightarrow> hook_state \<Rightarrow> Hotel option promise \<times> hook_state" where
  "updateEstablishment i formData resp st =
     (case updateEstablishment_try i formData resp st of
        (Inl err, st) \<Rightarrow>
          (Resolved None,
           addNotification Warning UpdateFailed (console_error LogUpdate err st))
      | (Inr data, st) \<Rightarrow> (Resolved (Some data), st))"

subsection \<open>deleteEstablishment\<close>

text \<open>
  The reservations query selects the ids of the reservations of the hotel whose status is
  \<^verbatim>\<open>CONFIRMEE\<close> or \<^verbatim>\<open>EN_COURS\<close>; its answer is the list of these ids, or \<^verbatim>\<open>null\<close>.
  The answer of the delete call is its \<open>error\<close>, \<open>None\<close> when it succeeded; it is read only
  when the call is made.
\<close>

definition deleteEstablishment_try ::
  "int \<Rightarrow> gw_error + int list option \<Rightarrow> gw_error option \<Rightarrow> hook_state \<Rightarrow>
   (gw_error + bool) \<times> hook_state" where
  "deleteEstablishment_try i resResp delResp st =
     (let st = gateway (SelectReservations i) st
      in case resResp of
           Inl reservationError \<Rightarrow> (Inl reservationError, st)
         | Inr reservations \<Rightarrow>
             if (case reservations of None \<Rightarrow> False | Some rs \<Rightarrow> length rs > 0)
             then (Inr False, addNotification Warning ActiveReservations st)
             else
               (let st = gateway (DeleteHotel i) st
                in case delResp of
                     Some err \<Rightarrow> (Inl err, st)
                   | None \<Rightarrow>
                       (let st = setEstablishments (filter (\<lambda>est. id' est \<noteq> i)) st;
                            st = addNotification Success Deleted st
                        in (Inr True, st))))"

definition deleteEstablishment ::
  "int \<Rightarrow> gw_error + int list option \<Rightarrow> gw_error option \<Rightarrow> hook_state \<Rightarrow>
   bool promise \<times> hook_state" where
  "deleteEstablishment i resResp delResp st =
     (case deleteEstablishment_try i resResp delResp st of
        (Inl err, st) \<Rightarrow>
          (Resolved False,
           addNotification Warning DeleteFailed (console_error LogDelete err st))
      | (Inr b, st) \<Rightarrow> (Resolved b, st))"

section \<open>Stats reconciler\<close>

definition stats_patch :: "Room list option \<Rightarrow> formdata" where
  "stats_patch rooms =
     (let chambres_total = (case rooms of None \<Rightarrow> 0 | Some rs \<Rightarrow> length rs);
          chambres_occupees =
            (case rooms of
               None \<Rightarrow> 0
             | Some rs \<Rightarrow> length (filter (\<lambda>room. room_statut room = ''occupee'') rs));
          taux_occupation =
            (if chambres_total > 0
             then (of_nat chambres_occupees / of_nat chambres_total) * 100
             else (0::rat))
      in [''chambres_total'' \<mapsto> JNum (of_nat chambres_total),
          ''chambres_occupees'' \<mapsto> JNum (of_nat chambres_occupees),
          ''taux_occupation'' \<mapsto> JNum (of_int (Math_round (taux_occupation * 100)) / 100)])"

text \<open>
  \<open>roomsResp\<close> answers the rooms query, \<open>updResp\<close> the update call made by
  \<^verbatim>\<open>updateEstablishment\<close>. Awaiting a rejected promise throws.
\<close>

definition updateEstablishmentStats_try ::
  "int \<Rightarrow> gw_error + Room list option \<Rightarrow> gw_error + Hotel \<Rightarrow> hook_state \<Rightarrow>
   (gw_error + unit) \<times> hook_state" where
  "updateEstablishmentStats_try i roomsResp updResp st =
     (let st = gateway (SelectRooms i) st
      in case roomsResp of
           Inl roomsError \<Rightarrow> (Inl roomsError, st)
         | Inr rooms \<Rightarrow>
             (case updateEstablishment i (stats_patch rooms) updResp st of
                (Resolved r, st) \<Rightarrow> (Inr (), st)
              | (Rejected err, st) \<Rightarrow> (Inl err, st)))"

definition updateEstablishmentStats ::
  "int \<Rightarrow> gw_error + Room list option \<Rightarrow> gw_error + Hotel \<Rightarrow> hook_state \<Rightarrow>
   unit promise \<times> hook_state" where
  "updateEstablishmentStats i roomsResp updResp st =
     (case updateEstablishmentStats_try i roomsResp updResp st of
        (Inl err, st) \<Rightarrow> (Resolved (), console_error LogStats err st)
      | (Inr u, st) \<Rightarrow> (Resolved (), st))"





text \<open>
  Modelled from the spec: the remote store is not among the sources. A row it returns
  from an insert agrees on occupancy with the row handed to it when its three occupancy
  columns hold the numbers handed over.
\<close>

definition stores_occupancy :: "formdata \<Rightarrow> Hotel \<Rightarrow> bool" where
  "stores_occupancy row data =
     (row ''chambres_total'' = map_option (\<lambda>n. JNum (of_int n)) (chambres_total data) \<and>
      row ''chambres_occupees'' = map_option (\<lambda>n. JNum (of_int n)) (chambres_occupees data) \<and>
      row ''taux_occupation'' = map_option JNum (taux_occupation data))"

section \<open>Sequences of operations\<close>

text \<open>
  One call of the hook that writes the cache, with the answers the gateway gives to it.
\<close>

datatype hook_op =
    OpRefresh "gw_error + Hotel list option"
  | OpCreate formdata "gw_error + Hotel"
  | OpUpdate int formdata "gw_error + Hotel"
  | OpDelete int "gw_error + int list option" "gw_error option"

fun apply_op :: "hook_op \<Rightarrow> hook_state \<Rightarrow> hook_state" where
  "apply_op (OpRefresh resp) st = snd (fetchEstablishments resp st)"
| "apply_op (OpCreate formData resp) st = snd (createEstablishment formData resp st)"
| "apply_op (OpUpdate i formData resp) st = snd (updateEstablishment i formData resp st)"
| "apply_op (OpDelete i resResp delResp) st = snd (deleteEstablishment i resResp delResp st)"

fun run_ops :: "hook_op list \<Rightarrow> hook_state \<Rightarrow> hook_state" where
  "run_ops [] st = st"
| "run_ops (x # xs) st = run_ops xs (apply_op x st)"

definition unique_ids :: "Hotel list \<Rightarrow> bool" where
  "unique_ids hs = distinct (map id' hs)"

text \<open>
  What the cache relies on in the answers of the gateway: a refresh lists no id twice,
  a created row carries an id that the cache does not hold, an updated row carries the id
  that was asked for.
\<close>

fun answer_ok :: "Hotel list \<Rightarrow> hook_op \<Rightarrow> bool" where
  "answer_ok cache (OpRefresh (Inr (Some hs))) = unique_ids hs"
| "answer_ok cache (OpCreate formData (Inr data)) = (id' data \<notin> set (map id' cache))"
| "answer_ok cache (OpUpdate i formData (Inr data)) = (id' data = i)"
| "answer_ok cache x = True"

fun answers_ok :: "hook_op list \<Rightarrow> hook_state \<Rightarrow> bool" where
  "answers_ok [] st = True"
| "answers_ok (x # xs) st =
     (answer_ok (establishments st) x \<and> answers_ok xs (apply_op x st))"

section \<open>Sample data\<close>

definition hotel_paris :: Hotel where
  "hotel_paris =
     \<lparr>id' = 1, nom = ''Hotel Lutetia'', adresse = ''45 Boulevard Raspail'', ville = ''Paris'',
      gestionnaire = Some ''Marie Dupont'', statut = ''ACTIF'',
      chambres_total = Some 10, chambres_occupees = Some 5, taux_occupation = Some 50\<rparr>"

definition hotel_lyon :: Hotel where
  "hotel_lyon =
     \<lparr>id' = 2, nom = ''Le Royal'', adresse = ''20 Place Bellecour'', ville = ''Lyon'',
      gestionnaire = None, statut = ''INACTIF'',
      chambres_total = Some 20, chambres_occupees = Some 5, taux_occupation = Some 25\<rparr>"

definition hotel_nice :: Hotel where
  "hotel_nice =
     \<lparr>id' = 3, nom = ''Negresco'', adresse = ''37 Promenade des Anglais'', ville = ''Nice'',
      gestionnaire = Some [], statut = ''ACTIF'',
      chambres_total = None, chambres_occupees = None, taux_occupation = None\<rparr>"

definition sample_state :: hook_state where
  "sample_state = initial_state\<lparr>establishments := [hotel_paris, hotel_lyon, hotel_nice]\<rparr>"

definition sample_rooms :: "Room list" where
  "sample_rooms =
     [Room 11 ''occupee'', Room 12 ''disponible'', Room 13 ''occupee'', Room 14 ''occupee'']"

definition sample_form :: formdata where
  "sample_form =
     [''nom'' \<mapsto> JStr ''Le Royal'', ''ville'' \<mapsto> JStr ''Lyon'', ''statut'' \<mapsto> JStr ''INACTIF'',
      ''chambres_total'' \<mapsto> JNum 99, ''taux_occupation'' \<mapsto> JNum 80]"

definition hotel_lyon_active :: Hotel where
  "hotel_lyon_active = hotel_lyon\<lparr>statut := ''ACTIF''\<rparr>"

definition hotel_new :: Hotel where
  "hotel_new =
     \<lparr>id' = 4, nom = ''Le Royal'', adresse = [], ville = ''Lyon'',
      gestionnaire = None, statut = ''INACTIF'',
      chambres_total = Some 0, chambres_occupees = Some 0, taux_occupation = Some 0\<rparr>"

definition sample_ops :: "hook_op list" where
  "sample_ops =
     [OpRefresh (Inr (Some [hotel_paris, hotel_lyon, hotel_nice])),
      OpCreate sample_form (Inr hotel_new),
      OpUpdate 2 sample_form (Inr hotel_lyon_active),
      OpDelete 1 (Inr (Some [])) None,
      OpDelete 3 (Inr (Some [7])) None,
      OpUpdate 3 sample_form (Inl (GwError ''timeout''))]"

section \<open>Facts about strings and numbers\<close>


lemma toLowerCase_Nil: "toLowerCase q = [] \<longleftrightarrow> q = []"
  by (simp add: toLowerCase_def)







lemma round2_grid: "\<exists>k::int. round2 x = of_int k / 100"
  by (auto simp: round2_def)

lemma near_grid:
  fixes k y :: rat
  assumes "k \<le> y + 1 / 2" and "y + 1 / 2 < k + 1"
  shows "\<bar>k / 100 - y / 100\<bar> \<le> 1 / 200"
  using assms by linarith

lemma round2_near: "\<bar>round2 x - x\<bar> \<le> 1 / 200"
proof -
  have "of_int \<lfloor>x * 100 + 1 / 2\<rfloor> \<le> x * 100 + 1 / 2" by (rule of_int_floor_le)
  moreover have "x * 100 + 1 / 2 < of_int \<lfloor>x * 100 + 1 / 2\<rfloor> + 1"
    using floor_correct [of "x * 100 + 1 / 2"] by simp
  ultimately have "\<bar>of_int \<lfloor>x * 100 + 1 / 2\<rfloor> / 100 - x * 100 / 100\<bar> \<le> 1 / 200"
    by (rule near_grid)
  then show ?thesis by (simp add: round2_def)
qed

lemma two_way_partition:
  "\<forall>x \<in> set xs. P x \<or> Q x \<Longrightarrow> \<forall>x \<in> set xs. \<not> (P x \<and> Q x) \<Longrightarrow>
   length (filter P xs) + length (filter Q xs) = length xs"
  by (induction xs) auto

section \<open>The derived views\<close>






text \<open>
  C10. For every state of the hook in which the status of every entry is ACTIF or
  INACTIF, the count of ACTIF entries plus the count of INACTIF entries returned by
  \<^verbatim>\<open>getEstablishmentStats()\<close> is its total count.
\<close>

theorem stats_actifs_inactifs_total:
  assumes "\<forall>est \<in> set (establishments st). statut est = ''ACTIF'' \<or> statut est = ''INACTIF''"
  shows "actifs (fst (getEstablishmentStats st)) + inactifs (fst (getEstablishmentStats st))
         = total (fst (getEstablishmentStats st))"
  using two_way_partition [OF assms] by (simp add: getEstablishmentStats_def Let_def)

theorem stats_actifs_inactifs_total_witness:
  "list_all (\<lambda>est. statut est = ''ACTIF'' \<or> statut est = ''INACTIF'')
     (establishments sample_state) \<and>
   actifs (fst (getEstablishmentStats sample_state))
     + inactifs (fst (getEstablishmentStats sample_state))
   = total (fst (getEstablishmentStats sample_state))"
proof -
  have h: "\<forall>est \<in> set (establishments sample_state). statut est = ''ACTIF'' \<or> statut est = ''INACTIF''"
    by (simp add: sample_state_def hotel_paris_def hotel_lyon_def hotel_nice_def)
  show ?thesis using h stats_actifs_inactifs_total [OF h] by (simp add: list_all_iff)
qed

section \<open>The mutation operations\<close>


lemma fst_updateEstablishment:
  "fst (updateEstablishment i formData resp st)
     = Resolved (case resp of Inl err \<Rightarrow> None | Inr data \<Rightarrow> Some data)"
  by (cases resp)
     (simp_all add: updateEstablishment_def updateEstablishment_try_def Let_def)

lemma establishments_fetchEstablishments:
  "establishments (snd (fetchEstablishments resp st))
     = (case resp of
          Inl err \<Rightarrow> establishments st
        | Inr data \<Rightarrow> (case data of None \<Rightarrow> [] | Some hs \<Rightarrow> hs))"
  by (cases resp)
     (simp_all add: fetchEstablishments_def fetchEstablishments_try_def gateway_def
        addNotification_def console_error_def setEstablishments_def setLoading_def
        setError_def Let_def)

lemma establishments_createEstablishment:
  "establishments (snd (createEstablishment formData resp st))
     = (case resp of
          Inl err \<Rightarrow> establishments st
        | Inr data \<Rightarrow> establishments st @ [data])"
  by (cases resp)
     (simp_all add: createEstablishment_def createEstablishment_try_def gateway_def
        addNotification_def console_error_def setEstablishments_def Let_def)

lemma establishments_updateEstablishment:
  "establishments (snd (updateEstablishment i formData resp st))
     = (case resp of
          Inl err \<Rightarrow> establishments st
        | Inr data \<Rightarrow> map (\<lambda>est. if id' est = i then data else est) (establishments st))"
  by (cases resp)
     (simp_all add: updateEstablishment_def updateEstablishment_try_def gateway_def
        addNotification_def console_error_def setEstablishments_def Let_def)

lemma establishments_deleteEstablishment:
  "establishments (snd (deleteEstablishment i resResp delResp st)) = establishments st \<or>
   establishments (snd (deleteEstablishment i resResp delResp st))
     = filter (\<lambda>est. id' est \<noteq> i) (establishments st)"
proof (cases resResp)
  case (Inl err)
  then show ?thesis
    by (simp add: deleteEstablishment_def deleteEstablishment_try_def gateway_def
        addNotification_def console_error_def Let_def)
next
  case (Inr reservations)
  then show ?thesis
    by (cases reservations; cases delResp)
       (simp_all add: deleteEstablishment_def deleteEstablishment_try_def gateway_def
          addNotification_def console_error_def setEstablishments_def Let_def)
qed

text \<open>
  C7. For every form data, \<^verbatim>\<open>createEstablishment\<close> hands to the insert of the gateway a row
  whose \<open>chambres_total\<close>, \<open>chambres_occupees\<close> and \<open>taux_occupation\<close> are 0, whatever the
  form data holds under these names; when the gateway returns the row as stored, the
  record that is returned and appended to the cache has the three fields at 0.
\<close>

theorem createEstablishment_initial_occupancy:
  "calls (snd (createEstablishment formData resp st))
     = calls st @ [InsertHotel (insert_row formData)] \<and>
   insert_row formData ''chambres_total'' = Some (JNum 0) \<and>
   insert_row formData ''chambres_occupees'' = Some (JNum 0) \<and>
   insert_row formData ''taux_occupation'' = Some (JNum 0) \<and>
   (stores_occupancy (insert_row formData) data \<longrightarrow>
      fst (createEstablishment formData (Inr data) st) = Resolved (Some data) \<and>
      establishments (snd (createEstablishment formData (Inr data) st))
        = establishments st @ [data] \<and>
      chambres_total data = Some 0 \<and> chambres_occupees data = Some 0 \<and>
      taux_occupation data = Some 0)"
proof -
  have "calls (snd (createEstablishment formData resp st))
     = calls st @ [InsertHotel (insert_row formData)]"
    by (cases resp)
       (simp_all add: createEstablishment_def createEstablishment_try_def gateway_def
          addNotification_def console_error_def setEstablishments_def Let_def)
  moreover have "fst (createEstablishment formData (Inr data) st) = Resolved (Some data)"
    by (simp add: createEstablishment_def createEstablishment_try_def Let_def)
  moreover have "establishments (snd (createEstablishment formData (Inr data) st))
        = establishments st @ [data]"
    by (simp add: createEstablishment_def createEstablishment_try_def gateway_def
          addNotification_def setEstablishments_def Let_def)
  moreover have "chambres_total data = Some 0 \<and> chambres_occupees data = Some 0 \<and>
      taux_occupation data = Some 0" if "stores_occupancy (insert_row formData) data"
    using that
    by (cases "chambres_total data"; cases "chambres_occupees data";
        cases "taux_occupation data")
       (simp_all add: stores_occupancy_def insert_row_def)
  ultimately show ?thesis
    by (simp add: insert_row_def)
qed

text \<open>A form that carries occupancy values of its own: they are overridden.\<close>

theorem createEstablishment_initial_occupancy_witness:
  "sample_form ''chambres_total'' = Some (JNum 99) \<and>
   insert_row sample_form ''chambres_total'' = Some (JNum 0) \<and>
   insert_row sample_form ''taux_occupation'' = Some (JNum 0) \<and>
   stores_occupancy (insert_row sample_form) hotel_new \<and>
   fst (createEstablishment sample_form (Inr hotel_new) sample_state) = Resolved (Some hotel_new) \<and>
   chambres_total hotel_new = Some 0"
proof -
  have h: "stores_occupancy (insert_row sample_form) hotel_new"
    by (simp add: stores_occupancy_def insert_row_def hotel_new_def)
  have "sample_form ''chambres_total'' = Some (JNum 99)"
    by (simp add: sample_form_def)
  with h show ?thesis
    using createEstablishment_initial_occupancy [of sample_form "Inr hotel_new" sample_state hotel_new]
    by simp
qed

text \<open>
  C6. For every id and form data, when the update call of the gateway fails,
  \<^verbatim>\<open>updateEstablishment\<close> returns \<^verbatim>\<open>null\<close> and the cache is what it was before the call:
  the state differs only by the call made, the warning notification and the log entry.
\<close>

theorem updateEstablishment_failure:
  "updateEstablishment i formData (Inl err) st =
     (Resolved None,
      st\<lparr>calls := calls st @ [UpdateHotel i formData],
         notifications := notifications st @ [(Warning, UpdateFailed)],
         console := console st @ [(LogUpdate, err)]\<rparr>)"
  by (simp add: updateEstablishment_def updateEstablishment_try_def gateway_def
      addNotification_def console_error_def Let_def)

theorem updateEstablishment_failure_witness:
  "fst (updateEstablishment 2 sample_form (Inl (GwError ''timeout'')) sample_state) = Resolved None \<and>
   establishments (snd (updateEstablishment 2 sample_form (Inl (GwError ''timeout'')) sample_state))
     = establishments sample_state"
  using updateEstablishment_failure [of 2 sample_form "GwError ''timeout''" sample_state]
  by simp

text \<open>
  C8. For every id, when the update call of the gateway succeeds, \<^verbatim>\<open>updateEstablishment\<close>
  returns the record of the gateway; the cache keeps its length, holds that record at
  every position whose entry has the id, and its former entry at every other position;
  when no entry has the id the cache is what it was.
\<close>

theorem updateEstablishment_success:
  "fst (updateEstablishment i formData (Inr data) st) = Resolved (Some data) \<and>
   length (establishments (snd (updateEstablishment i formData (Inr data) st)))
     = length (establishments st) \<and>
   (\<forall>k < length (establishments st).
      establishments (snd (updateEstablishment i formData (Inr data) st)) ! k
        = (if id' (establishments st ! k) = i then data else establishments st ! k)) \<and>
   (i \<notin> id' ` set (establishments st) \<longrightarrow>
      establishments (snd (updateEstablishment i formData (Inr data) st)) = establishments st)"
proof -
  have "map (\<lambda>est. if id' est = i then data else est) hs = hs" if "i \<notin> id' ` set hs" for hs
    using that by (induction hs) auto
  then show ?thesis
    by (simp add: updateEstablishment_def updateEstablishment_try_def gateway_def
        addNotification_def setEstablishments_def Let_def)
qed

theorem updateEstablishment_success_witness:
  "establishments (snd (updateEstablishment 2 sample_form (Inr hotel_lyon_active) sample_state)) ! 0
     = hotel_paris \<and>
   establishments (snd (updateEstablishment 2 sample_form (Inr hotel_lyon_active) sample_state)) ! 1
     = hotel_lyon_active \<and>
   establishments (snd (updateEstablishment 9 sample_form (Inr hotel_lyon_active) sample_state))
     = [hotel_paris, hotel_lyon, hotel_nice]"
proof -
  note upd = updateEstablishment_success [of 2 sample_form hotel_lyon_active sample_state]
  have hs: "establishments sample_state = [hotel_paris, hotel_lyon, hotel_nice]"
    by (simp add: sample_state_def)
  have ids: "id' hotel_paris = 1" "id' hotel_lyon = 2" "id' hotel_nice = 3"
    by (simp_all add: hotel_paris_def hotel_lyon_def hotel_nice_def)
  from upd have
    "establishments (snd (updateEstablishment 2 sample_form (Inr hotel_lyon_active) sample_state)) ! 0
       = (if id' (establishments sample_state ! 0) = 2 then hotel_lyon_active
          else establishments sample_state ! 0)"
    by (simp add: hs)
  then have a: "establishments (snd (updateEstablishment 2 sample_form (Inr hotel_lyon_active) sample_state)) ! 0
       = hotel_paris"
    by (simp add: hs ids)
  from upd have
    "establishments (snd (updateEstablishment 2 sample_form (Inr hotel_lyon_active) sample_state)) ! 1
       = (if id' (establishments sample_state ! 1) = 2 then hotel_lyon_active
          else establishments sample_state ! 1)"
    by (simp add: hs)
  then have b: "establishments (snd (updateEstablishment 2 sample_form (Inr hotel_lyon_active) sample_state)) ! 1
       = hotel_lyon_active"
    by (simp add: hs ids)
  have "9 \<notin> id' ` set (establishments sample_state)"
    by (simp add: hs ids)
  then have "establishments (snd (updateEstablishment 9 sample_form (Inr hotel_lyon_active) sample_state))
     = establishments sample_state"
    using updateEstablishment_success [of 9 sample_form hotel_lyon_active sample_state] by blast
  with a b show ?thesis by (simp add: hs)
qed

text \<open>
  C2. For every id, when the reservations query returns at least one reservation (the
  query asks only for those of that hotel whose status is CONFIRMEE or EN_COURS),
  \<^verbatim>\<open>deleteEstablishment\<close> returns \<^verbatim>\<open>false\<close>; the state differs only by the reservations
  query and one warning notification: no delete call is made and the cache is what it was.
\<close>

theorem deleteEstablishment_guard:
  assumes "rs \<noteq> []"
  shows "deleteEstablishment i (Inr (Some rs)) delResp st =
           (Resolved False,
            st\<lparr>calls := calls st @ [SelectReservations i],
               notifications := notifications st @ [(Warning, ActiveReservations)]\<rparr>)"
  using assms
  by (simp add: deleteEstablishment_def deleteEstablishment_try_def gateway_def
      addNotification_def Let_def)

theorem deleteEstablishment_guard_witness:
  "fst (deleteEstablishment 1 (Inr (Some [7])) None sample_state) = Resolved False \<and>
   calls (snd (deleteEstablishment 1 (Inr (Some [7])) None sample_state)) = [SelectReservations 1] \<and>
   establishments (snd (deleteEstablishment 1 (Inr (Some [7])) None sample_state))
     = [hotel_paris, hotel_lyon, hotel_nice] \<and>
   notifications (snd (deleteEstablishment 1 (Inr (Some [7])) None sample_state))
     = [(Warning, ActiveReservations)]"
proof -
  have h: "[7::int] \<noteq> []" by simp
  show ?thesis
    using deleteEstablishment_guard [OF h, of 1 None sample_state]
    by (simp add: sample_state_def initial_state_def)
qed

section \<open>The stats reconciler\<close>


lemma updateEstablishmentStats_read_ok:
  "updateEstablishmentStats i (Inr rooms) updResp st =
     (Resolved (), snd (updateEstablishment i (stats_patch rooms) updResp (gateway (SelectRooms i) st)))"
proof -
  obtain r st' where eq: "updateEstablishment i (stats_patch rooms) updResp (gateway (SelectRooms i) st) = (r, st')"
    by (cases "updateEstablishment i (stats_patch rooms) updResp (gateway (SelectRooms i) st)")
  have "r = Resolved (case updResp of Inl err \<Rightarrow> None | Inr data \<Rightarrow> Some data)"
    using fst_updateEstablishment [of i "stats_patch rooms" updResp "gateway (SelectRooms i) st"] eq
    by simp
  then show ?thesis
    by (simp add: updateEstablishmentStats_def updateEstablishmentStats_try_def Let_def eq)
qed



text \<open>
  C9 (as amended). \<^verbatim>\<open>updateEstablishmentStats\<close> always resolves, with no value. When the
  rooms query fails, the state differs only by that query and one log entry: no
  notification is emitted. When the rooms query succeeds and the update fails, the failure
  is handled by \<^verbatim>\<open>updateEstablishment\<close>, which writes its log entry and emits a warning
  notification; the cache is what it was in both cases.
\<close>

theorem updateEstablishmentStats_failures:
  "updateEstablishmentStats i (Inl err) updResp st =
     (Resolved (),
      st\<lparr>calls := calls st @ [SelectRooms i], console := console st @ [(LogStats, err)]\<rparr>) \<and>
   updateEstablishmentStats i (Inr rooms) (Inl err) st =
     (Resolved (),
      st\<lparr>calls := calls st @ [SelectRooms i, UpdateHotel i (stats_patch rooms)],
         notifications := notifications st @ [(Warning, UpdateFailed)],
         console := console st @ [(LogUpdate, err)]\<rparr>) \<and>
   fst (updateEstablishmentStats i roomsResp updResp st) = Resolved ()"
proof -
  have a: "updateEstablishmentStats i (Inl err) updResp st =
     (Resolved (),
      st\<lparr>calls := calls st @ [SelectRooms i], console := console st @ [(LogStats, err)]\<rparr>)"
    by (simp add: updateEstablishmentStats_def updateEstablishmentStats_try_def gateway_def
        console_error_def Let_def)
  have b: "updateEstablishmentStats i (Inr rooms) (Inl err) st =
     (Resolved (),
      st\<lparr>calls := calls st @ [SelectRooms i, UpdateHotel i (stats_patch rooms)],
         notifications := notifications st @ [(Warning, UpdateFailed)],
         console := console st @ [(LogUpdate, err)]\<rparr>)"
    by (simp add: updateEstablishmentStats_read_ok updateEstablishment_def
        updateEstablishment_try_def gateway_def addNotification_def console_error_def Let_def)
  have c: "fst (updateEstablishmentStats i roomsResp updResp st) = Resolved ()"
  proof (cases roomsResp)
    case (Inl e)
    then show ?thesis
      by (simp add: updateEstablishmentStats_def updateEstablishmentStats_try_def Let_def)
  next
    case (Inr rooms')
    then show ?thesis by (simp add: updateEstablishmentStats_read_ok)
  qed
  from a b c show ?thesis by simp
qed

theorem updateEstablishmentStats_failures_witness:
  "notifications (snd (updateEstablishmentStats 1 (Inl (GwError ''offline'')) (Inr hotel_paris) sample_state)) = [] \<and>
   console (snd (updateEstablishmentStats 1 (Inl (GwError ''offline'')) (Inr hotel_paris) sample_state))
     = [(LogStats, GwError ''offline'')] \<and>
   establishments (snd (updateEstablishmentStats 1 (Inl (GwError ''offline'')) (Inr hotel_paris) sample_state))
     = establishments sample_state \<and>
   fst (updateEstablishmentStats 1 (Inl (GwError ''offline'')) (Inr hotel_paris) sample_state) = Resolved ()"
  using updateEstablishmentStats_failures [of 1 "GwError ''offline''" "Inr hotel_paris" sample_state]
  by (simp add: sample_state_def initial_state_def)

text \<open>
  C9 as stated fails when the update step fails: a warning notification is emitted.
\<close>

theorem updateEstablishmentStats_silent_counterexample:
  "notifications (snd (updateEstablishmentStats 1 (Inr (Some sample_rooms))
      (Inl (GwError ''timeout'')) sample_state)) \<noteq> notifications sample_state \<and>
   notifications (snd (updateEstablishmentStats 1 (Inr (Some sample_rooms))
      (Inl (GwError ''timeout'')) sample_state)) = [(Warning, UpdateFailed)] \<and>
   notifications sample_state = []"
proof -
  have "notifications (snd (updateEstablishmentStats 1 (Inr (Some sample_rooms))
      (Inl (GwError ''timeout'')) sample_state)) = [(Warning, UpdateFailed)]"
    by code_simp
  moreover have "notifications sample_state = []"
    by code_simp
  ultimately show ?thesis by simp
qed

section \<open>Uniqueness of ids\<close>

lemma unique_ids_filter: "unique_ids hs \<Longrightarrow> unique_ids (filter P hs)"
  by (simp add: unique_ids_def distinct_map_filter)

lemma map_id_replace:
  "id' data = i \<Longrightarrow> map id' (map (\<lambda>est. if id' est = i then data else est) hs) = map id' hs"
  by (induction hs) auto

lemma unique_ids_replace:
  "unique_ids hs \<Longrightarrow> id' data = i \<Longrightarrow>
   unique_ids (map (\<lambda>est. if id' est = i then data else est) hs)"
  unfolding unique_ids_def by (simp only: map_id_replace)

lemma unique_ids_append:
  "unique_ids hs \<Longrightarrow> id' data \<notin> set (map id' hs) \<Longrightarrow> unique_ids (hs @ [data])"
  by (simp add: unique_ids_def)

lemma apply_op_unique_ids:
  assumes "unique_ids (establishments st)" and "answer_ok (establishments st) x"
  shows "unique_ids (establishments (apply_op x st))"
proof (cases x)
  case (OpRefresh resp)
  show ?thesis
  proof (cases resp)
    case (Inl err)
    with OpRefresh assms show ?thesis by (simp add: establishments_fetchEstablishments)
  next
    case (Inr data)
    with OpRefresh assms show ?thesis
      by (cases data) (simp_all add: establishments_fetchEstablishments unique_ids_def)
  qed
next
  case (OpCreate formData resp)
  with assms show ?thesis
    by (cases resp) (simp_all add: establishments_createEstablishment unique_ids_append)
next
  case (OpUpdate i formData resp)
  with assms show ?thesis
    by (cases resp) (simp_all add: establishments_updateEstablishment unique_ids_replace)
next
  case (OpDelete i resResp delResp)
  with assms establishments_deleteEstablishment [of i resResp delResp st] show ?thesis
    by (auto simp: unique_ids_filter)
qed

text \<open>
  C5 (as amended). For every sequence of create, update, delete and refresh operations
  run from a cache without a repeated id, if every successful refresh lists no id twice,
  every successful create returns a row whose id the cache does not hold at that moment,
  and every successful update returns a row with the id asked for, then no two entries of
  the resulting cache share an id.
\<close>

theorem run_ops_unique_ids:
  "unique_ids (establishments st) \<Longrightarrow> answers_ok ops st \<Longrightarrow>
   unique_ids (establishments (run_ops ops st))"
proof (induction ops arbitrary: st)
  case Nil
  then show ?case by simp
next
  case (Cons x xs)
  from Cons.prems have "unique_ids (establishments (apply_op x st))"
    by (simp add: apply_op_unique_ids)
  moreover from Cons.prems have "answers_ok xs (apply_op x st)" by simp
  ultimately show ?case using Cons.IH by simp
qed

theorem run_ops_unique_ids_witness:
  "unique_ids (establishments initial_state) \<and> answers_ok sample_ops initial_state \<and>
   unique_ids (establishments (run_ops sample_ops initial_state)) \<and>
   establishments (run_ops sample_ops initial_state) = [hotel_lyon_active, hotel_nice, hotel_new]"
proof -
  have a: "unique_ids (establishments initial_state)" by code_simp
  have b: "answers_ok sample_ops initial_state" by code_simp
  have c: "establishments (run_ops sample_ops initial_state) = [hotel_lyon_active, hotel_nice, hotel_new]"
    by code_simp
  from a b c run_ops_unique_ids [OF a b] show ?thesis by simp
qed

text \<open>
  C5 as stated fails: the cache repeats an id when a create returns a row that a refresh
  has already brought in, when a refresh lists a row twice, and when an update returns a
  row with the id of another entry.
\<close>

theorem run_ops_unique_ids_counterexample:
  "\<not> unique_ids (establishments (run_ops
        [OpRefresh (Inr (Some [hotel_paris, hotel_new])), OpCreate sample_form (Inr hotel_new)]
        initial_state)) \<and>
   \<not> unique_ids (establishments (run_ops
        [OpRefresh (Inr (Some [hotel_paris, hotel_paris]))] initial_state)) \<and>
   \<not> unique_ids (establishments (run_ops
        [OpRefresh (Inr (Some [hotel_paris, hotel_lyon])), OpUpdate 1 sample_form (Inr hotel_lyon)]
        initial_state))"
  by code_simp

end
